theory Spec2Isabelle
  imports Main
begin

section \<open>Shared data of the verification server\<close>

text \<open>
  Instants (Go \<^verbatim>\<open>time.Time\<close>) are nanoseconds since Go's zero time, durations
  (\<^verbatim>\<open>time.Duration\<close>) are nanoseconds. Both are unbounded integers here: the 64-bit
  range of the source is not modelled.
\<close>

type_synonym time = int
type_synonym duration = int

text \<open>
  \<^verbatim>\<open>database.User\<close>, \<^verbatim>\<open>database.Realm\<close> and \<^verbatim>\<open>database.AuthorizedApp\<close>: the
  fields the handlers read.
\<close>

record User =
  Email :: string
  Disabled :: bool
  Admin :: bool
  LastRevokeCheck :: time
  AdminRealms :: "nat list"

record Realm =
  ID :: nat
  RealmName :: string

record AuthorizedApp =
  AppName :: string
  AppRealmID :: nat

text \<open>
  Modelled from the spec: \<^verbatim>\<open>User.CanAdminRealm\<close> of package database, which is not
  among the sources. "A User may administer zero or more realms
  (CanAdminRealm(realmID) -> bool)".
\<close>

definition CanAdminRealm :: "User \<Rightarrow> nat \<Rightarrow> bool" where
  "CanAdminRealm u realmID = (realmID \<in> set (AdminRealms u))"

text \<open>The request-scoped context: the values the controller package stores in it.\<close>

record Context =
  authorizedApp_value :: "AuthorizedApp option"
  user_value :: "User option"
  realm_value :: "Realm option"

definition AuthorizedAppFromContext :: "Context \<Rightarrow> AuthorizedApp option" where
  "AuthorizedAppFromContext ctx = authorizedApp_value ctx"

definition UserFromContext :: "Context \<Rightarrow> User option" where
  "UserFromContext ctx = user_value ctx"

definition RealmFromContext :: "Context \<Rightarrow> Realm option" where
  "RealmFromContext ctx = realm_value ctx"

definition WithUser :: "Context \<Rightarrow> User \<Rightarrow> Context" where
  "WithUser ctx u = ctx\<lparr>user_value := Some u\<rparr>"

section \<open>Package middleware\<close>

text \<open>
  What a middleware sees of a request: the result of \<^verbatim>\<open>r.Cookie("session")\<close> (\<open>Inl\<close> the
  error), whether \<^verbatim>\<open>controller.IsJSONContentType(r)\<close> holds, and the context.
\<close>

record Request =
  Cookie_session :: "string + string"
  IsJSONContentType :: bool
  Context :: Context

text \<open>The errors the inner closures of the middlewares return.\<close>

datatype mw_error =
    FailedToGetCookie string
  | FailedToVerifySessionCookie string
  | SessionIsMissingEmail
  | EmailIsNotAString
  | ErrUserNotFound
  | ErrUserDisabled
  | FailedToVerifyNotRevoked string
  | FailedToUpdateRevokeCheckTime string
  | MissingUserInSession
  | MissingRealmInSession
  | ErrNotRealmAdmin

text \<open>
  The effects of a middleware, in the order the source performs them: log lines, flash
  messages, redirects, a JSON response with a nil body, the call of the next handler,
  and the two calls that reach outside the process (the revocation check of the identity
  provider and the write of the user record).
\<close>

datatype event =
    Errorw string mw_error
  | FlashError string
  | Redirect string nat
  | WriteJSON_nil nat
  | ServeNext Request
  | CheckRevoked string
  | SaveUser User

definition StatusFound :: nat where
  "StatusFound = 302"

definition StatusUnauthorized :: nat where
  "StatusUnauthorized = 401"

subsection \<open>RequireRealmAdmin\<close>

definition RequireRealmAdmin_check :: "Request \<Rightarrow> mw_error option" where
  "RequireRealmAdmin_check r =
     (case UserFromContext (Context r) of
        None \<Rightarrow> Some MissingUserInSession
      | Some user \<Rightarrow>
          (case RealmFromContext (Context r) of
             None \<Rightarrow> Some MissingRealmInSession
           | Some realm \<Rightarrow>
               if \<not> CanAdminRealm user (ID realm) then Some ErrNotRealmAdmin else None))"

definition RequireRealmAdmin_Handle :: "Request \<Rightarrow> event list" where
  "RequireRealmAdmin_Handle r =
     (case RequireRealmAdmin_check r of
        Some err \<Rightarrow>
          Errorw ''RequireRealmAdmin'' err #
            (if err = ErrNotRealmAdmin
             then [FlashError ''You are not authorized to admin that realm.'',
                   Redirect ''/realm'' StatusFound]
             else [FlashError ''Unauthorized'', Redirect ''/signout'' StatusFound])
      | None \<Rightarrow> [ServeNext r])"

subsection \<open>RequireAuth\<close>

text \<open>A value of the claims of a verified token: a string, or anything else.\<close>

datatype claim = StringClaim string | OtherClaim

text \<open>
  The handler with its collaborators: the two calls of the firebase client, the two calls
  of the database (\<^verbatim>\<open>FindUser\<close> returns the pair of Go, user and error), and the ttl.
\<close>

record RequireAuthHandler =
  VerifySessionCookie :: "string \<Rightarrow> string + (string \<rightharpoonup> claim)"
  VerifySessionCookieAndCheckRevoked :: "string \<Rightarrow> string option"
  FindUser :: "string \<Rightarrow> User option \<times> string option"
  SaveUser_db :: "User \<Rightarrow> string option"
  ttl :: duration

text \<open>
  The inner closure of \<^verbatim>\<open>RequireAuthHandler.Handle\<close>. \<open>now k\<close> is the k-th reading of
  \<^verbatim>\<open>time.Now()\<close> in the request: reading 0 is compared with the ttl, reading 1 is stored.
  The result is the calls made and either the error or the request with the user attached.
\<close>

definition RequireAuth_check ::
  "RequireAuthHandler \<Rightarrow> (nat \<Rightarrow> time) \<Rightarrow> Request \<Rightarrow> event list \<times> (mw_error + Request)" where
  "RequireAuth_check rah now r =
     (case Cookie_session r of
        Inl err \<Rightarrow> ([], Inl (FailedToGetCookie err))
      | Inr cookie \<Rightarrow>
     (case VerifySessionCookie rah cookie of
        Inl err \<Rightarrow> ([], Inl (FailedToVerifySessionCookie err))
      | Inr claims \<Rightarrow>
     (case claims ''email'' of
        None \<Rightarrow> ([], Inl SessionIsMissingEmail)
      | Some OtherClaim \<Rightarrow> ([], Inl EmailIsNotAString)
      | Some (StringClaim email) \<Rightarrow>
     (case FindUser rah email of
        (_, Some err) \<Rightarrow> ([], Inl ErrUserNotFound)
      | (None, None) \<Rightarrow> ([], Inl ErrUserNotFound)
      | (Some user, None) \<Rightarrow>
          if Disabled user then ([], Inl ErrUserDisabled)
          else if now 0 > LastRevokeCheck user + ttl rah then
            (case VerifySessionCookieAndCheckRevoked rah cookie of
               Some err \<Rightarrow> ([CheckRevoked cookie], Inl (FailedToVerifyNotRevoked err))
             | None \<Rightarrow>
                 (let user' = user\<lparr>LastRevokeCheck := now 1\<rparr> in
                  case SaveUser_db rah user' of
                    Some err \<Rightarrow>
                      ([CheckRevoked cookie, SaveUser user'],
                       Inl (FailedToUpdateRevokeCheckTime err))
                  | None \<Rightarrow>
                      ([CheckRevoked cookie, SaveUser user'],
                       Inr (r\<lparr>Context := WithUser (Context r) user'\<rparr>))))
          else ([], Inr (r\<lparr>Context := WithUser (Context r) user\<rparr>))))))"

definition RequireAuth_Handle ::
  "RequireAuthHandler \<Rightarrow> (nat \<Rightarrow> time) \<Rightarrow> Request \<Rightarrow> event list" where
  "RequireAuth_Handle rah now r =
     (case RequireAuth_check rah now r of
        (calls, Inl err) \<Rightarrow>
          calls @ Errorw ''RequireAuth'' err #
            (if IsJSONContentType r then [WriteJSON_nil StatusUnauthorized]
             else [FlashError ''Unauthorized'', Redirect ''/signout'' StatusFound])
      | (calls, Inr r') \<Rightarrow> calls @ [ServeNext r'])"

definition isCheckRevoked :: "event \<Rightarrow> bool" where
  "isCheckRevoked ev = (case ev of CheckRevoked _ \<Rightarrow> True | _ \<Rightarrow> False)"

definition isServeNext :: "event \<Rightarrow> bool" where
  "isServeNext ev = (case ev of ServeNext _ \<Rightarrow> True | _ \<Rightarrow> False)"

text \<open>The response of \<^verbatim>\<open>RequireAuth\<close> and of the generic branch of the other guards.\<close>

definition unauthorized_response :: "Request \<Rightarrow> event list" where
  "unauthorized_response r =
     (if IsJSONContentType r then [WriteJSON_nil 401]
      else [FlashError ''Unauthorized'', Redirect ''/signout'' 302])"

section \<open>Package issueapi\<close>

subsection \<open>Requests, responses, configuration\<close>

record IssueCodeRequest =
  TestType :: string
  SymptomDate :: string
  Phone :: string

text \<open>
  The JSON bodies the handler writes: \<^verbatim>\<open>api.Error(...)\<close> and \<^verbatim>\<open>api.IssueCodeResponse\<close>
  (the code, the expiry as RFC1123 text, the expiry in seconds since the Unix epoch).
\<close>

datatype json = Error string | IssueCodeResponse string string int

record IssueAPIConfig =
  AllowedSymptomAge :: duration
  VerificationCodeDuration :: duration
  VerficationCodeDigits :: nat
  ColissionRetryCount :: nat

record IssueAPI =
  config :: IssueAPIConfig
  validTestType :: "string list"

text \<open>
  \<^verbatim>\<open>New\<close>: the valid test types are the three constants of package api, which is not
  among the sources; the spec (4.3, step 3) and the form of the home page give their values.
\<close>

definition TestTypeConfirmed :: string where
  "TestTypeConfirmed = ''confirmed''"

definition TestTypeLikely :: string where
  "TestTypeLikely = ''likely''"

definition TestTypeNegative :: string where
  "TestTypeNegative = ''negative''"

definition New :: "IssueAPIConfig \<Rightarrow> IssueAPI" where
  "New cfg = \<lparr>config = cfg,
              validTestType = [TestTypeConfirmed, TestTypeLikely, TestTypeNegative]\<rparr>"

text \<open>The record the store keeps for a code (spec, section 3) and the request of package otp.\<close>

record VerificationCode =
  Code :: string
  Code_ExpiresAt :: time
  Code_TestType :: string
  Code_SymptomDate :: "time option"
  Code_IssuingUser :: "User option"
  Code_IssuingApp :: "AuthorizedApp option"
  Code_RealmID :: nat

record otp_Request =
  Length :: nat
  ExpiresAt :: time
  Request_TestType :: string
  Request_SymptomDate :: "time option"
  MaxSymptomAge :: duration
  IssuingUser :: "User option"
  IssuingApp :: "AuthorizedApp option"
  RealmID :: nat

text \<open>
  The effects of the issuance handler in order: log lines, the calls of
  \<^verbatim>\<open>controller.WriteJSON\<close> with status and body, each generated candidate code, each
  message handed to the SMS provider, each delete sent to the store.
\<close>

datatype io_event =
    Errorf string
  | WriteJSON nat json
  | GenerateCode string
  | SendSMS string string
  | DeleteVerificationCode string

text \<open>The state a request changes: the code records of the store, and the effects so far.\<close>

record World =
  codes :: "string \<rightharpoonup> VerificationCode"
  trace :: "io_event list"

definition emit :: "io_event \<Rightarrow> World \<Rightarrow> World" where
  "emit ev w = w\<lparr>trace := trace w @ [ev]\<rparr>"

text \<open>
  What the handler obtains from its collaborators during one request:
  \<^item> \<open>BindJSON\<close>: the error of \<^verbatim>\<open>controller.BindJSON\<close>, if any, and the decoded request;
  \<^item> \<open>RequestContext\<close>: the context of the request;
  \<^item> \<open>GetRealm\<close>: \<^verbatim>\<open>authApp.GetRealm(db)\<close>, \<open>Inl\<close> the error;
  \<^item> \<open>GetSMSProvider\<close>: \<^verbatim>\<open>realm.GetSMSProvider(ctx, db)\<close>, the pair of Go; a provider is
    its \<^verbatim>\<open>SendSMS\<close> (recipient, message, the error if any);
  \<^item> \<open>Now k\<close>: the k-th reading of \<^verbatim>\<open>time.Now()\<close>; \<open>LocalOffset\<close>: the offset of the
    zone \<^verbatim>\<open>time.Local\<close> from UTC (one fixed offset);
  \<^item> \<open>ParseDate\<close>: \<^verbatim>\<open>time.Parse("2006-01-02", s)\<close>, \<open>Inl\<close> the error, \<open>Inr d\<close> the calendar
    day as the number of days since the zero time: the instant parsed is midnight UTC of
    that day; \<open>FormatDate\<close>: a day number as \<^verbatim>\<open>YYYY-MM-DD\<close>;
    \<open>FormatRFC1123\<close>: \<^verbatim>\<open>t.Format(time.RFC1123)\<close>;
  \<^item> \<open>RandomCode n k\<close>: the k-th candidate code of n digits that the generator yields;
  \<^item> \<open>DeleteError\<close>: the error of \<^verbatim>\<open>db.DeleteVerificationCode(code)\<close>, if any;
  \<^item> \<open>FormatSMS\<close>: \<^verbatim>\<open>fmt.Sprintf(smsTemplate, code, minutes)\<close>.
\<close>

record IssueEnv =
  BindJSON :: "string option \<times> IssueCodeRequest"
  RequestContext :: Context
  GetRealm :: "AuthorizedApp \<Rightarrow> string + Realm"
  GetSMSProvider :: "Realm \<Rightarrow> (string \<Rightarrow> string \<Rightarrow> string option) option \<times> string option"
  Now :: "nat \<Rightarrow> time"
  LocalOffset :: duration
  ParseDate :: "string \<Rightarrow> string + int"
  FormatDate :: "int \<Rightarrow> string"
  FormatRFC1123 :: "time \<Rightarrow> string"
  RandomCode :: "nat \<Rightarrow> nat \<Rightarrow> string"
  DeleteError :: "string \<Rightarrow> string option"
  FormatSMS :: "string \<Rightarrow> int \<Rightarrow> string"

definition StatusOK :: nat where
  "StatusOK = 200"

definition StatusUnprocessableEntity :: nat where
  "StatusUnprocessableEntity = 422"

definition StatusInternalServerError :: nat where
  "StatusInternalServerError = 500"

subsection \<open>Time\<close>

definition Hour :: duration where
  "Hour = 3600 * 1000000000"

definition Minute :: duration where
  "Minute = 60 * 1000000000"

definition Second :: duration where
  "Second = 1000000000"

text \<open>
  \<^verbatim>\<open>t.Truncate(d)\<close> rounds down to a multiple of d since the zero time, and returns t for
  d <= 0. \<^verbatim>\<open>t.After(u)\<close> compares instants. \<^verbatim>\<open>t.Format("2006-01-02")\<close> renders the
  calendar day of t in the zone of t, which is \<^verbatim>\<open>time.Local\<close> for the three times the
  handler formats. \<^verbatim>\<open>t.Unix()\<close> counts seconds from 1970, which is 62135596800 seconds
  after the zero time. \<^verbatim>\<open>int(d.Minutes())\<close> is the number of whole minutes, rounded
  towards zero.
\<close>

definition Truncate :: "time \<Rightarrow> duration \<Rightarrow> time" where
  "Truncate t d = (if d \<le> 0 then t else t - t mod d)"

definition After :: "time \<Rightarrow> time \<Rightarrow> bool" where
  "After t u = (u < t)"

definition Format_Local :: "IssueEnv \<Rightarrow> time \<Rightarrow> string" where
  "Format_Local e t = FormatDate e ((t + LocalOffset e) div (24 * Hour))"

definition Unix :: "time \<Rightarrow> int" where
  "Unix t = t div Second - 62135596800"

definition Minutes :: "duration \<Rightarrow> int" where
  "Minutes d = (if 0 \<le> d then d div Minute else - ((- d) div Minute))"

subsection \<open>Strings\<close>

text \<open>
  \<^verbatim>\<open>strings.ToLower\<close> on the ASCII letters; bytes outside ASCII are left as they are (the
  Unicode case mapping of Go is not modelled).
\<close>

definition toLower_char :: "char \<Rightarrow> char" where
  "toLower_char c =
     (if 65 \<le> (of_char c :: nat) \<and> (of_char c :: nat) \<le> 90
      then char_of ((of_char c :: nat) + 32) else c)"

definition ToLower :: "string \<Rightarrow> string" where
  "ToLower s = map toLower_char s"

subsection \<open>The store and package otp\<close>

text \<open>
  Modelled from the spec: \<^verbatim>\<open>insertCodeIfAbsent\<close> and \<^verbatim>\<open>deleteCode\<close> of the Credential
  Store (package database, not among the sources). "insertCodeIfAbsent(code, record) ->
  ok|Conflict|error", "deleteCode(code) -> ok|error"; a conflict is "another live code
  already has this value". The store holds the live codes, keyed by the code value. An
  insert answers \<open>True\<close> for ok and \<open>False\<close> for a conflict.
\<close>

definition insertCodeIfAbsent :: "VerificationCode \<Rightarrow> World \<Rightarrow> bool \<times> World" where
  "insertCodeIfAbsent vc w =
     (case codes w (Code vc) of
        Some _ \<Rightarrow> (False, w)
      | None \<Rightarrow> (True, w\<lparr>codes := (codes w)(Code vc \<mapsto> vc)\<rparr>))"

definition deleteCode :: "IssueEnv \<Rightarrow> string \<Rightarrow> World \<Rightarrow> string option \<times> World" where
  "deleteCode e code w =
     (case DeleteError e code of
        Some err \<Rightarrow> (Some err, emit (DeleteVerificationCode code) w)
      | None \<Rightarrow> (None, (emit (DeleteVerificationCode code) w)\<lparr>codes := (codes w)(code := None)\<rparr>))"

definition newVerificationCode :: "otp_Request \<Rightarrow> string \<Rightarrow> VerificationCode" where
  "newVerificationCode rq code =
     \<lparr>Code = code, Code_ExpiresAt = ExpiresAt rq, Code_TestType = Request_TestType rq,
      Code_SymptomDate = Request_SymptomDate rq, Code_IssuingUser = IssuingUser rq,
      Code_IssuingApp = IssuingApp rq, Code_RealmID = RealmID rq\<rparr>"

text \<open>
  Modelled from the spec: \<^verbatim>\<open>otp.Request.Issue\<close> (package otp is not among the sources).
  "Generate a random numeric code of configured length; attempt to persist a new
  Verification Code record keyed by the code value with the computed metadata. If
  persistence reports a uniqueness conflict, regenerate and retry, up to a configured
  retry budget; exhausting the budget is an InternalError." The first argument is the
  number of retries left, the fourth the number of candidates generated so far: with a
  budget of n retries there are at most n + 1 attempts.
\<close>

primrec Issue_loop ::
  "nat \<Rightarrow> IssueEnv \<Rightarrow> otp_Request \<Rightarrow> nat \<Rightarrow> World \<Rightarrow> (string + string) \<times> World" where
  "Issue_loop 0 e rq k w =
     (let code = RandomCode e (Length rq) k in
      case insertCodeIfAbsent (newVerificationCode rq code) (emit (GenerateCode code) w) of
        (True, w') \<Rightarrow> (Inr code, w')
      | (False, w') \<Rightarrow> (Inl ''collision retry budget exhausted'', w'))"
| "Issue_loop (Suc n) e rq k w =
     (let code = RandomCode e (Length rq) k in
      case insertCodeIfAbsent (newVerificationCode rq code) (emit (GenerateCode code) w) of
        (True, w') \<Rightarrow> (Inr code, w')
      | (False, w') \<Rightarrow> Issue_loop n e rq (Suc k) w')"

definition Issue :: "IssueEnv \<Rightarrow> otp_Request \<Rightarrow> nat \<Rightarrow> World \<Rightarrow> (string + string) \<times> World" where
  "Issue e rq retryCount w = Issue_loop retryCount e rq 0 w"

subsection \<open>The handler\<close>

definition getAuthorizationFromContext ::
  "IssueEnv \<Rightarrow> AuthorizedApp option \<times> User option \<times> string option" where
  "getAuthorizationFromContext e =
     (case AuthorizedAppFromContext (RequestContext e) of
        Some authorizedApp \<Rightarrow> (Some authorizedApp, None, None)
      | None \<Rightarrow>
          (case UserFromContext (RequestContext e) of
             Some user \<Rightarrow> (None, Some user, None)
           | None \<Rightarrow> (None, None, Some ''unable to identify authorized requestor'')))"

text \<open>
  \<^verbatim>\<open>ServeHTTP\<close> is split where the source has its comments; each part ends with a
  response (a return of the source) or goes on to the next part with the values in scope.
  The parts are given last first.

  The response (source lines 163 to 183): the SMS, the delete of the code when the SMS
  fails, the two responses. The log line of the failed delete has a format verb and no
  argument: the logger is given no arguments and logs the template as it is.
\<close>

definition ServeHTTP_respond ::
  "IssueEnv \<Rightarrow> IssueCodeRequest \<Rightarrow> (string \<Rightarrow> string \<Rightarrow> string option) option \<Rightarrow>
   duration \<Rightarrow> time \<Rightarrow> string \<Rightarrow> World \<Rightarrow> World" where
  "ServeHTTP_respond e request smsProvider expiration expiryTime code w =
     (let ok = emit (WriteJSON StatusOK
                 (IssueCodeResponse code (FormatRFC1123 e expiryTime) (Unix expiryTime)))
      in case smsProvider of
        None \<Rightarrow> ok w
      | Some provider \<Rightarrow>
          if Phone request \<noteq> [] then
            (let message = FormatSMS e code (Minutes expiration);
                 w1 = emit (SendSMS (Phone request) message) w
             in case provider (Phone request) message of
               None \<Rightarrow> ok w1
             | Some err \<Rightarrow>
                 (let w3 = (case deleteCode e code w1 of
                              (Some _, w2) \<Rightarrow>
                                emit (Errorf ''failed to delete verification code: %v'') w2
                            | (None, w2) \<Rightarrow> w2)
                  in emit (WriteJSON StatusInternalServerError
                             (Error (''failed to send sms: '' @ err)))
                       (emit (Errorf (''otp.SendSMS: '' @ err)) w3)))
          else ok w)"

text \<open>The generation of the code (source lines 140 to 161).\<close>

definition ServeHTTP_issue ::
  "IssueAPI \<Rightarrow> IssueEnv \<Rightarrow> IssueCodeRequest \<Rightarrow> AuthorizedApp option \<Rightarrow> User option \<Rightarrow>
   Realm \<Rightarrow> (string \<Rightarrow> string \<Rightarrow> string option) option \<Rightarrow> time option \<Rightarrow> World \<Rightarrow> World" where
  "ServeHTTP_issue ic e request authApp user realm smsProvider symptomDate w =
     (let expiration = VerificationCodeDuration (config ic);
          expiryTime = Now e 1 + expiration;
          codeRequest =
            \<lparr>Length = VerficationCodeDigits (config ic), ExpiresAt = expiryTime,
             Request_TestType = TestType request, Request_SymptomDate = symptomDate,
             MaxSymptomAge = AllowedSymptomAge (config ic), IssuingUser = user,
             IssuingApp = authApp, RealmID = ID realm\<rparr>
      in case Issue e codeRequest (ColissionRetryCount (config ic)) w of
        (Inl err, w1) \<Rightarrow>
          emit (WriteJSON StatusInternalServerError
                  (Error ''error generating verification, wait a moment and try again''))
            (emit (Errorf (''otp.GenerateCode: '' @ err)) w1)
      | (Inr code, w1) \<Rightarrow> ServeHTTP_respond e request smsProvider expiration expiryTime code w1)"

text \<open>The symptom date (source lines 117 to 138).\<close>

definition symptomDate_message :: "string \<Rightarrow> string \<Rightarrow> string \<Rightarrow> string" where
  "symptomDate_message parsed minDate maxDate =
     ''Invalid symptom onset date: '' @ parsed @ '' must be on or after '' @ minDate @
     '' and on or before '' @ maxDate @ ''.''"

definition ServeHTTP_symptomDate ::
  "IssueAPI \<Rightarrow> IssueEnv \<Rightarrow> IssueCodeRequest \<Rightarrow> AuthorizedApp option \<Rightarrow> User option \<Rightarrow>
   Realm \<Rightarrow> (string \<Rightarrow> string \<Rightarrow> string option) option \<Rightarrow> World \<Rightarrow> World" where
  "ServeHTTP_symptomDate ic e request authApp user realm smsProvider w =
     (let maxDate = Now e 0;
          minDate = Truncate (maxDate + (- 1) * AllowedSymptomAge (config ic)) (24 * Hour)
      in if SymptomDate request \<noteq> [] then
           (case ParseDate e (SymptomDate request) of
              Inl err \<Rightarrow>
                emit (WriteJSON StatusUnprocessableEntity
                        (Error (''invalid symptom onset date: '' @ err)))
                  (emit (Errorf (''time.Parse: '' @ err)) w)
            | Inr d \<Rightarrow>
                (let parsed = d * (24 * Hour) in
                 if After minDate parsed \<or> After parsed maxDate then
                   (let message = symptomDate_message (Format_Local e parsed)
                                    (Format_Local e minDate) (Format_Local e maxDate)
                    in emit (WriteJSON StatusUnprocessableEntity (Error message))
                         (emit (Errorf message) w))
                 else ServeHTTP_issue ic e request authApp user realm smsProvider
                        (Some parsed) w))
         else ServeHTTP_issue ic e request authApp user realm smsProvider None w)"

text \<open>The test type (source lines 109 to 115).\<close>

definition ServeHTTP_testType ::
  "IssueAPI \<Rightarrow> IssueEnv \<Rightarrow> IssueCodeRequest \<Rightarrow> AuthorizedApp option \<Rightarrow> User option \<Rightarrow>
   Realm \<Rightarrow> (string \<Rightarrow> string \<Rightarrow> string option) option \<Rightarrow> World \<Rightarrow> World" where
  "ServeHTTP_testType ic e request authApp user realm smsProvider w =
     (let request' = request\<lparr>TestType := ToLower (TestType request)\<rparr> in
      if TestType request' \<notin> set (validTestType ic) then
        emit (WriteJSON StatusUnprocessableEntity
                (Error (''invalid test type: '' @ TestType request')))
          (emit (Errorf (''invalid test type: '' @ TestType request')) w)
      else ServeHTTP_symptomDate ic e request' authApp user realm smsProvider w)"

text \<open>
  The SMS configuration (source lines 93 to 107). The branch of a nil provider writes its
  response and has no return: the handler goes on with no provider.
\<close>

definition ServeHTTP_sms ::
  "IssueAPI \<Rightarrow> IssueEnv \<Rightarrow> IssueCodeRequest \<Rightarrow> AuthorizedApp option \<Rightarrow> User option \<Rightarrow>
   Realm \<Rightarrow> World \<Rightarrow> World" where
  "ServeHTTP_sms ic e request authApp user realm w =
     (if Phone request \<noteq> [] then
        (case GetSMSProvider e realm of
           (_, Some err) \<Rightarrow>
             emit (WriteJSON StatusInternalServerError (Error ''failed to get sms provider''))
               (emit (Errorf (''GetSMSProvider: '' @ err)) w)
         | (None, None) \<Rightarrow>
             ServeHTTP_testType ic e request authApp user realm None
               (emit (WriteJSON StatusUnprocessableEntity
                        (Error ''phone provided, but no SMS provider is configured''))
                  (emit (Errorf
                     ''otp.GetSMSProvider: phone provided, but no SMS provider is configured'')
                     w))
         | (Some smsProvider, None) \<Rightarrow>
             ServeHTTP_testType ic e request authApp user realm (Some smsProvider) w)
      else ServeHTTP_testType ic e request authApp user realm None w)"

text \<open>The realm (source lines 77 to 91).\<close>

definition ServeHTTP_realm ::
  "IssueAPI \<Rightarrow> IssueEnv \<Rightarrow> IssueCodeRequest \<Rightarrow> AuthorizedApp option \<Rightarrow> User option \<Rightarrow>
   World \<Rightarrow> World" where
  "ServeHTTP_realm ic e request authApp user w =
     (case authApp of
        Some app \<Rightarrow>
          (case GetRealm e app of
             Inl err \<Rightarrow> emit (WriteJSON StatusUnauthorized (Error ''Unauthorized'')) w
           | Inr realm \<Rightarrow> ServeHTTP_sms ic e request authApp user realm w)
      | None \<Rightarrow>
          (case RealmFromContext (RequestContext e) of
             None \<Rightarrow> emit (WriteJSON StatusUnprocessableEntity (Error ''no realm selected'')) w
           | Some realm \<Rightarrow> ServeHTTP_sms ic e request authApp user realm w))"

text \<open>The whole handler (source lines 61 to 76, then the parts above).\<close>

definition ServeHTTP :: "IssueAPI \<Rightarrow> IssueEnv \<Rightarrow> World \<Rightarrow> World" where
  "ServeHTTP ic e w =
     (case BindJSON e of
        (Some err, _) \<Rightarrow>
          emit (WriteJSON StatusOK (Error (''invalid request: '' @ err)))
            (emit (Errorf (''failed to bind request: '' @ err)) w)
      | (None, request) \<Rightarrow>
          (case getAuthorizationFromContext e of
             (_, _, Some err) \<Rightarrow>
               emit (WriteJSON StatusUnprocessableEntity (Error (''invalid request: '' @ err)))
                 (emit (Errorf (''failed to get authorization: '' @ err)) w)
           | (authApp, user, None) \<Rightarrow> ServeHTTP_realm ic e request authApp user w))"

text \<open>
  What the client receives. \<^verbatim>\<open>controller.WriteJSON\<close> calls \<^verbatim>\<open>WriteHeader\<close> and writes the
  body; of several calls of \<^verbatim>\<open>WriteHeader\<close> on one response, net/http keeps the first
  status, and the bodies follow each other.
\<close>

definition written :: "World \<Rightarrow> (nat \<times> json) list" where
  "written w =
     concat (map (\<lambda>ev. case ev of WriteJSON st body \<Rightarrow> [(st, body)] | _ \<Rightarrow> []) (trace w))"

definition response_status :: "World \<Rightarrow> nat option" where
  "response_status w = (case written w of [] \<Rightarrow> None | (st, _) # _ \<Rightarrow> Some st)"

definition generated :: "World \<Rightarrow> string list" where
  "generated w =
     concat (map (\<lambda>ev. case ev of GenerateCode c \<Rightarrow> [c] | _ \<Rightarrow> []) (trace w))"


section \<open>Example requests\<close>

text \<open>A user who administers realms 1 and 3, two realms, and requests of a browser.\<close>

definition alice :: User where
  "alice = \<lparr>Email = ''alice@example.com'', Disabled = False, Admin = False,
            LastRevokeCheck = 1000, AdminRealms = [1, 3]\<rparr>"

definition realm1 :: Realm where
  "realm1 = \<lparr>ID = 1, RealmName = ''one''\<rparr>"

definition realm2 :: Realm where
  "realm2 = \<lparr>ID = 2, RealmName = ''two''\<rparr>"

definition user_context :: "User option \<Rightarrow> Realm option \<Rightarrow> Context" where
  "user_context u rl = \<lparr>authorizedApp_value = None, user_value = u, realm_value = rl\<rparr>"

definition browser_request :: "User option \<Rightarrow> Realm option \<Rightarrow> Request" where
  "browser_request u rl =
     \<lparr>Cookie_session = Inr ''cookie-1'', IsJSONContentType = False,
      Context = user_context u rl\<rparr>"

text \<open>
  An identity provider that knows one session cookie, and a handler whose store answers
  \<open>found\<close> to the lookup, whose revocation check answers \<open>revoked\<close> and whose write of
  the user answers \<open>saved\<close>; the ttl is five minutes.
\<close>

definition verified_claims :: "string \<Rightarrow> string + (string \<rightharpoonup> claim)" where
  "verified_claims cookie =
     (if cookie = ''cookie-1'' then Inr [''email'' \<mapsto> StringClaim ''alice@example.com'']
      else Inl ''invalid session cookie'')"

definition example_rah ::
  "User option \<times> string option \<Rightarrow> string option \<Rightarrow> string option \<Rightarrow> RequireAuthHandler" where
  "example_rah found revoked saved =
     \<lparr>VerifySessionCookie = verified_claims,
      VerifySessionCookieAndCheckRevoked = (\<lambda>_. revoked),
      FindUser = (\<lambda>_. found), SaveUser_db = (\<lambda>_. saved), ttl = 5 * Minute\<rparr>"

definition clock_from :: "time \<Rightarrow> nat \<Rightarrow> time" where
  "clock_from t k = t + int k"

text \<open>
  An issuance environment. The clock reads 19:00 UTC on 2020-08-01, which is day 737637
  after the zero time; the calendar holds the four days the examples use. Symptoms may be
  14 days old, a code lives 15 minutes, and three retries are allowed. The zone is UTC
  unless an example sets another offset, and the realm has no SMS provider unless an
  example gives one.
\<close>

definition calendar :: "(string \<times> int) list" where
  "calendar = [(''2020-07-17'', 737622), (''2020-07-18'', 737623),
               (''2020-08-01'', 737637), (''2020-08-02'', 737638)]"

definition example_ParseDate :: "string \<Rightarrow> string + int" where
  "example_ParseDate s =
     (case map_of calendar s of Some d \<Rightarrow> Inr d | None \<Rightarrow> Inl ''cannot parse as 2006-01-02'')"

definition example_FormatDate :: "int \<Rightarrow> string" where
  "example_FormatDate d =
     (case map_of (map (\<lambda>(s, n). (n, s)) calendar) d of Some s \<Rightarrow> s | None \<Rightarrow> ''another day'')"

definition example_config :: IssueAPIConfig where
  "example_config =
     \<lparr>AllowedSymptomAge = 14 * (24 * Hour), VerificationCodeDuration = 15 * Minute,
      VerficationCodeDigits = 8, ColissionRetryCount = 3\<rparr>"

definition example_env :: "IssueCodeRequest \<Rightarrow> Context \<Rightarrow> IssueEnv" where
  "example_env request ctx =
     \<lparr>BindJSON = (None, request), RequestContext = ctx,
      GetRealm = (\<lambda>app. Inr \<lparr>ID = AppRealmID app, RealmName = ''realm of the app''\<rparr>),
      GetSMSProvider = (\<lambda>_. (None, None)),
      Now = clock_from (737637 * (24 * Hour) + 19 * Hour),
      LocalOffset = 0,
      ParseDate = example_ParseDate, FormatDate = example_FormatDate,
      FormatRFC1123 = (\<lambda>_. ''Sat, 01 Aug 2020 19:15:00 UTC''),
      RandomCode = (\<lambda>n k. if k = 0 then ''11111111'' else if k = 1 then ''22222222''
                           else ''33333333''),
      DeleteError = (\<lambda>_. None),
      FormatSMS = (\<lambda>code minutes. ''Your exposure notifications verification code is '' @ code)\<rparr>"

definition empty_world :: World where
  "empty_world = \<lparr>codes = Map.empty, trace = []\<rparr>"

definition confirmed_request :: "string \<Rightarrow> string \<Rightarrow> IssueCodeRequest" where
  "confirmed_request date phone = \<lparr>TestType = ''confirmed'', SymptomDate = date, Phone = phone\<rparr>"

text \<open>A provider whose every send fails, and a store that already holds the given codes.\<close>

definition failing_provider :: "string \<Rightarrow> string \<Rightarrow> string option" where
  "failing_provider to message = Some ''carrier rejected the message''"

definition world_with :: "string list \<Rightarrow> World" where
  "world_with cs =
     \<lparr>codes = map_of (map (\<lambda>c. (c, newVerificationCode
                 \<lparr>Length = 8, ExpiresAt = 0, Request_TestType = ''likely'',
                  Request_SymptomDate = None, MaxSymptomAge = 0, IssuingUser = None,
                  IssuingApp = None, RealmID = 1\<rparr> c)) cs),
      trace = []\<rparr>"


section \<open>Properties of the middlewares\<close>

text \<open>
  C8. RequireRealmAdmin fails closed when the user or the realm is missing from the
  context: it logs, flashes the generic "Unauthorized" and redirects to the sign-out page,
  with an error that is not the realm-admin error. With both present, a user who cannot
  administer the realm is redirected to the realm selection with the message "You are not
  authorized to admin that realm.", and a user who can is passed to the next handler with
  the request as it came.
\<close>

theorem RequireRealmAdmin_outcomes:
  "(UserFromContext (Context r) = None \<or> RealmFromContext (Context r) = None \<longrightarrow>
      (\<exists>err. err \<noteq> ErrNotRealmAdmin \<and>
         RequireRealmAdmin_Handle r =
           [Errorw ''RequireRealmAdmin'' err, FlashError ''Unauthorized'',
            Redirect ''/signout'' 302]))
   \<and> (\<forall>user realm.
         UserFromContext (Context r) = Some user \<and> RealmFromContext (Context r) = Some realm \<longrightarrow>
         RequireRealmAdmin_Handle r =
           (if CanAdminRealm user (ID realm) then [ServeNext r]
            else [Errorw ''RequireRealmAdmin'' ErrNotRealmAdmin,
                  FlashError ''You are not authorized to admin that realm.'',
                  Redirect ''/realm'' 302]))"
  by (auto simp: RequireRealmAdmin_Handle_def RequireRealmAdmin_check_def StatusFound_def
           split: option.splits)

theorem RequireRealmAdmin_outcomes_witness:
  "(\<exists>err. err \<noteq> ErrNotRealmAdmin \<and>
      RequireRealmAdmin_Handle (browser_request (Some alice) None) =
        [Errorw ''RequireRealmAdmin'' err, FlashError ''Unauthorized'',
         Redirect ''/signout'' 302])
   \<and> RequireRealmAdmin_Handle (browser_request (Some alice) (Some realm2)) =
     [Errorw ''RequireRealmAdmin'' ErrNotRealmAdmin,
      FlashError ''You are not authorized to admin that realm.'', Redirect ''/realm'' 302]
   \<and> RequireRealmAdmin_Handle (browser_request (Some alice) (Some realm1)) =
     [ServeNext (browser_request (Some alice) (Some realm1))]"
proof -
  have a: "RequireRealmAdmin_Handle (browser_request (Some alice) (Some realm2)) =
     [Errorw ''RequireRealmAdmin'' ErrNotRealmAdmin,
      FlashError ''You are not authorized to admin that realm.'', Redirect ''/realm'' 302]"
    using RequireRealmAdmin_outcomes [of "browser_request (Some alice) (Some realm2)"]
    by (simp add: browser_request_def user_context_def UserFromContext_def
          RealmFromContext_def CanAdminRealm_def alice_def realm2_def)
  have b: "RequireRealmAdmin_Handle (browser_request (Some alice) (Some realm1)) =
     [ServeNext (browser_request (Some alice) (Some realm1))]"
    using RequireRealmAdmin_outcomes [of "browser_request (Some alice) (Some realm1)"]
    by (simp add: browser_request_def user_context_def UserFromContext_def
          RealmFromContext_def CanAdminRealm_def alice_def realm1_def)
  have c: "\<exists>err. err \<noteq> ErrNotRealmAdmin \<and>
      RequireRealmAdmin_Handle (browser_request (Some alice) None) =
        [Errorw ''RequireRealmAdmin'' err, FlashError ''Unauthorized'',
         Redirect ''/signout'' 302]"
    using RequireRealmAdmin_outcomes [of "browser_request (Some alice) None"]
    by (simp add: browser_request_def user_context_def RealmFromContext_def)
  from a b c show ?thesis by simp
qed

subsection \<open>RequireAuth\<close>

lemma RequireAuth_check_calls:
  "RequireAuth_check rah now r = (calls, res) \<Longrightarrow> ServeNext r' \<notin> set calls"
  by (auto simp: RequireAuth_check_def Let_def
      split: sum.splits option.splits claim.splits prod.splits if_splits)

lemma RequireAuth_check_attached:
  "RequireAuth_check rah now r = (calls, Inr r') \<Longrightarrow>
     \<exists>u. UserFromContext (Context r') = Some u \<and> \<not> Disabled u"
  by (auto simp: RequireAuth_check_def Let_def UserFromContext_def WithUser_def
      split: sum.splits option.splits claim.splits prod.splits if_splits)

lemma ServeNext_only_not_disabled:
  assumes "ServeNext r' \<in> set (RequireAuth_Handle rah now r)"
  shows "\<exists>u. UserFromContext (Context r') = Some u \<and> \<not> Disabled u"
proof (cases "RequireAuth_check rah now r")
  case (Pair calls res)
  note nc = RequireAuth_check_calls [OF Pair, of r']
  show ?thesis
  proof (cases res)
    case (Inl err)
    with Pair assms nc show ?thesis
      by (auto simp: RequireAuth_Handle_def split: if_splits)
  next
    case (Inr r2)
    with Pair assms nc have "r' = r2"
      by (auto simp: RequireAuth_Handle_def)
    with Pair Inr RequireAuth_check_attached show ?thesis by blast
  qed
qed

lemma example_cookie:
  "Cookie_session (browser_request u rl) = Inr ''cookie-1''"
  "VerifySessionCookie (example_rah found revoked saved) ''cookie-1'' =
     Inr [''email'' \<mapsto> StringClaim ''alice@example.com'']"
  "[''email'' \<mapsto> StringClaim ''alice@example.com''] ''email'' =
     Some (StringClaim ''alice@example.com'')"
  by (simp_all add: browser_request_def example_rah_def verified_claims_def)

text \<open>
  C4. When the store finds a user whose Disabled flag is set, RequireAuth fails with the
  error "user disabled" although the session cookie verifies and carries the email: it
  answers with the unauthorized response and never calls the next handler. And whatever
  the request, a request that reaches the next handler carries a user who is not disabled.
\<close>

theorem RequireAuth_disabled_user:
  assumes "Cookie_session r = Inr cookie"
    and "VerifySessionCookie rah cookie = Inr claims"
    and "claims ''email'' = Some (StringClaim email)"
    and "FindUser rah email = (Some user, None)"
    and "Disabled user"
  shows "RequireAuth_check rah now r = ([], Inl ErrUserDisabled)
    \<and> RequireAuth_Handle rah now r = Errorw ''RequireAuth'' ErrUserDisabled # unauthorized_response r
    \<and> filter isServeNext (RequireAuth_Handle rah now r) = []
    \<and> (\<forall>rah' now' r0 r'. ServeNext r' \<in> set (RequireAuth_Handle rah' now' r0) \<longrightarrow>
          (\<exists>u. UserFromContext (Context r') = Some u \<and> \<not> Disabled u))"
proof -
  have c: "RequireAuth_check rah now r = ([], Inl ErrUserDisabled)"
    using assms by (simp add: RequireAuth_check_def)
  then have h: "RequireAuth_Handle rah now r =
      Errorw ''RequireAuth'' ErrUserDisabled # unauthorized_response r"
    by (simp add: RequireAuth_Handle_def unauthorized_response_def StatusFound_def
          StatusUnauthorized_def)
  have n: "filter isServeNext (RequireAuth_Handle rah now r) = []"
    unfolding h by (simp add: unauthorized_response_def isServeNext_def)
  from c h n ServeNext_only_not_disabled show ?thesis by blast
qed

theorem RequireAuth_disabled_user_witness:
  "RequireAuth_Handle (example_rah (Some (alice\<lparr>Disabled := True\<rparr>), None) None None)
      (clock_from 2000) (browser_request None None) =
     [Errorw ''RequireAuth'' ErrUserDisabled, FlashError ''Unauthorized'',
      Redirect ''/signout'' 302]"
proof -
  have f: "FindUser (example_rah (Some (alice\<lparr>Disabled := True\<rparr>), None) None None)
      ''alice@example.com'' = (Some (alice\<lparr>Disabled := True\<rparr>), None)"
    by (simp add: example_rah_def)
  have d: "Disabled (alice\<lparr>Disabled := True\<rparr>)" by simp
  from RequireAuth_disabled_user [where r = "browser_request None None"
      and rah = "example_rah (Some (alice\<lparr>Disabled := True\<rparr>), None) None None"
      and now = "clock_from 2000", OF example_cookie f d]
  show ?thesis
    by (simp add: unauthorized_response_def browser_request_def)
qed

text \<open>
  C10. In RequireAuth an error of the user lookup and a lookup that finds no user give the
  same error, "user not found", and the same response, which depends on nothing but the
  content type of the request.
\<close>

theorem RequireAuth_lookup_error_is_not_found:
  assumes "Cookie_session r = Inr cookie"
    and "VerifySessionCookie rah cookie = Inr claims"
    and "claims ''email'' = Some (StringClaim email)"
    and "snd (FindUser rah email) \<noteq> None \<or> fst (FindUser rah email) = None"
  shows "RequireAuth_check rah now r = ([], Inl ErrUserNotFound)
    \<and> RequireAuth_Handle rah now r = Errorw ''RequireAuth'' ErrUserNotFound # unauthorized_response r"
proof -
  have c: "RequireAuth_check rah now r = ([], Inl ErrUserNotFound)"
    using assms by (cases "FindUser rah email") (auto simp: RequireAuth_check_def split: option.splits)
  then show ?thesis
    by (simp add: RequireAuth_Handle_def unauthorized_response_def StatusFound_def
          StatusUnauthorized_def)
qed

theorem RequireAuth_lookup_error_is_not_found_witness:
  "RequireAuth_Handle (example_rah (None, Some ''connection refused'') None None)
      (clock_from 2000) (browser_request None None) =
     [Errorw ''RequireAuth'' ErrUserNotFound, FlashError ''Unauthorized'',
      Redirect ''/signout'' 302]
   \<and> RequireAuth_Handle (example_rah (None, None) None None)
      (clock_from 2000) (browser_request None None) =
     [Errorw ''RequireAuth'' ErrUserNotFound, FlashError ''Unauthorized'',
      Redirect ''/signout'' 302]
   \<and> RequireAuth_Handle (example_rah (Some alice, Some ''connection reset'') None None)
      (clock_from 2000) (browser_request None None) =
     [Errorw ''RequireAuth'' ErrUserNotFound, FlashError ''Unauthorized'',
      Redirect ''/signout'' 302]"
proof -
  have f1: "snd (FindUser (example_rah (None, Some ''connection refused'') None None)
      ''alice@example.com'') \<noteq> None \<or> fst (FindUser (example_rah (None, Some ''connection refused'') None None)
      ''alice@example.com'') = None"
    by (simp add: example_rah_def)
  have f2: "snd (FindUser (example_rah (None, None) None None)
      ''alice@example.com'') \<noteq> None \<or> fst (FindUser (example_rah (None, None) None None)
      ''alice@example.com'') = None"
    by (simp add: example_rah_def)
  have f3: "snd (FindUser (example_rah (Some alice, Some ''connection reset'') None None)
      ''alice@example.com'') \<noteq> None \<or> fst (FindUser (example_rah (Some alice, Some ''connection reset'') None None)
      ''alice@example.com'') = None"
    by (simp add: example_rah_def)
  from RequireAuth_lookup_error_is_not_found [where r = "browser_request None None"
      and rah = "example_rah (None, Some ''connection refused'') None None" and now = "clock_from 2000",
      OF example_cookie f1]
    RequireAuth_lookup_error_is_not_found [where r = "browser_request None None"
      and rah = "example_rah (None, None) None None" and now = "clock_from 2000",
      OF example_cookie f2]
    RequireAuth_lookup_error_is_not_found [where r = "browser_request None None"
      and rah = "example_rah (Some alice, Some ''connection reset'') None None" and now = "clock_from 2000",
      OF example_cookie f3]
  show ?thesis
    by (simp add: unauthorized_response_def browser_request_def)
qed

text \<open>
  C3. For a request whose cookie verifies and whose user is found and not disabled:
  while the time since the last revocation check is at most the ttl, RequireAuth makes no
  revocation check and no write; once it is more than the ttl, there is exactly one
  revocation check. If the check fails the request is refused and nothing is written; if
  it succeeds, the user is written with the last check set to the second reading of the
  clock, which is later than the old value when the ttl is not negative and the clock does
  not run backwards; if that write fails the request is refused; otherwise the request goes
  on with the updated user. A user is written only after a successful check.
\<close>

theorem RequireAuth_revocation_ttl:
  assumes "Cookie_session r = Inr cookie"
    and "VerifySessionCookie rah cookie = Inr claims"
    and "claims ''email'' = Some (StringClaim email)"
    and "FindUser rah email = (Some user, None)"
    and "\<not> Disabled user"
  shows "(now 0 - LastRevokeCheck user \<le> ttl rah \<longrightarrow>
            RequireAuth_Handle rah now r = [ServeNext (r\<lparr>Context := WithUser (Context r) user\<rparr>)])
    \<and> (now 0 - LastRevokeCheck user > ttl rah \<longrightarrow>
         (\<forall>err. VerifySessionCookieAndCheckRevoked rah cookie = Some err \<longrightarrow>
            RequireAuth_Handle rah now r =
              CheckRevoked cookie # Errorw ''RequireAuth'' (FailedToVerifyNotRevoked err) #
                unauthorized_response r)
       \<and> (VerifySessionCookieAndCheckRevoked rah cookie = None \<longrightarrow>
           (\<forall>err. SaveUser_db rah (user\<lparr>LastRevokeCheck := now 1\<rparr>) = Some err \<longrightarrow>
              RequireAuth_Handle rah now r =
                CheckRevoked cookie # SaveUser (user\<lparr>LastRevokeCheck := now 1\<rparr>) #
                  Errorw ''RequireAuth'' (FailedToUpdateRevokeCheckTime err) #
                  unauthorized_response r)
         \<and> (SaveUser_db rah (user\<lparr>LastRevokeCheck := now 1\<rparr>) = None \<longrightarrow>
              RequireAuth_Handle rah now r =
                [CheckRevoked cookie, SaveUser (user\<lparr>LastRevokeCheck := now 1\<rparr>),
                 ServeNext (r\<lparr>Context := WithUser (Context r)
                                (user\<lparr>LastRevokeCheck := now 1\<rparr>)\<rparr>)]))
       \<and> (0 \<le> ttl rah \<and> now 0 \<le> now 1 \<longrightarrow>
             LastRevokeCheck user < LastRevokeCheck (user\<lparr>LastRevokeCheck := now 1\<rparr>)))
    \<and> length (filter isCheckRevoked (RequireAuth_Handle rah now r)) =
        (if now 0 - LastRevokeCheck user > ttl rah then 1 else 0)
    \<and> (\<forall>u'. SaveUser u' \<in> set (RequireAuth_Handle rah now r) \<longrightarrow>
          now 0 - LastRevokeCheck user > ttl rah
          \<and> VerifySessionCookieAndCheckRevoked rah cookie = None
          \<and> u' = user\<lparr>LastRevokeCheck := now 1\<rparr>)"
  using assms
  by (auto simp: RequireAuth_Handle_def RequireAuth_check_def unauthorized_response_def
        StatusFound_def StatusUnauthorized_def isCheckRevoked_def Let_def
      split: option.splits)

theorem RequireAuth_revocation_ttl_witness:
  "RequireAuth_Handle (example_rah (Some alice, None) None None)
      (clock_from (1000 + 5 * Minute)) (browser_request None None) =
     [ServeNext ((browser_request None None)
        \<lparr>Context := WithUser (Context (browser_request None None)) alice\<rparr>)]
   \<and> RequireAuth_Handle (example_rah (Some alice, None) None None)
      (clock_from (1001 + 5 * Minute)) (browser_request None None) =
     [CheckRevoked ''cookie-1'', SaveUser (alice\<lparr>LastRevokeCheck := 1002 + 5 * Minute\<rparr>),
      ServeNext ((browser_request None None)
        \<lparr>Context := WithUser (Context (browser_request None None))
           (alice\<lparr>LastRevokeCheck := 1002 + 5 * Minute\<rparr>)\<rparr>)]
   \<and> RequireAuth_Handle (example_rah (Some alice, None) (Some ''revoked'') None)
      (clock_from (1001 + 5 * Minute)) (browser_request None None) =
     [CheckRevoked ''cookie-1'', Errorw ''RequireAuth'' (FailedToVerifyNotRevoked ''revoked''),
      FlashError ''Unauthorized'', Redirect ''/signout'' 302]
   \<and> RequireAuth_Handle (example_rah (Some alice, None) None (Some ''read-only store''))
      (clock_from (1001 + 5 * Minute)) (browser_request None None) =
     [CheckRevoked ''cookie-1'', SaveUser (alice\<lparr>LastRevokeCheck := 1002 + 5 * Minute\<rparr>),
      Errorw ''RequireAuth'' (FailedToUpdateRevokeCheckTime ''read-only store''),
      FlashError ''Unauthorized'', Redirect ''/signout'' 302]"
proof -
  have f: "FindUser (example_rah (Some alice, None) revoked saved) ''alice@example.com'' =
      (Some alice, None)" for revoked saved
    by (simp add: example_rah_def)
  have d: "\<not> Disabled alice" by (simp add: alice_def)
  have l: "LastRevokeCheck alice = 1000" by (simp add: alice_def)
  have t: "ttl (example_rah found revoked saved) = 5 * Minute" for found revoked saved
    by (simp add: example_rah_def)
  have v: "VerifySessionCookieAndCheckRevoked (example_rah found revoked saved) c = revoked"
    for found revoked saved c
    by (simp add: example_rah_def)
  have s: "SaveUser_db (example_rah found revoked saved) u = saved" for found revoked saved u
    by (simp add: example_rah_def)
  have j: "\<not> IsJSONContentType (browser_request None None)"
    by (simp add: browser_request_def)
  let ?r = "browser_request None None"
  let ?late = "clock_from (1001 + 5 * Minute)"
  have a: "RequireAuth_Handle (example_rah (Some alice, None) None None)
      (clock_from (1000 + 5 * Minute)) (browser_request None None) =
     [ServeNext ((browser_request None None)
        \<lparr>Context := WithUser (Context (browser_request None None)) alice\<rparr>)]"
    using RequireAuth_revocation_ttl [where r = ?r and now = "clock_from (1000 + 5 * Minute)"
        and rah = "example_rah (Some alice, None) None None",
        OF example_cookie f d, THEN conjunct1]
    by (simp add: l t clock_from_def)
  have b: "RequireAuth_Handle (example_rah (Some alice, None) None None)
      (clock_from (1001 + 5 * Minute)) (browser_request None None) =
     [CheckRevoked ''cookie-1'', SaveUser (alice\<lparr>LastRevokeCheck := 1002 + 5 * Minute\<rparr>),
      ServeNext ((browser_request None None)
        \<lparr>Context := WithUser (Context (browser_request None None))
           (alice\<lparr>LastRevokeCheck := 1002 + 5 * Minute\<rparr>)\<rparr>)]"
    using RequireAuth_revocation_ttl [where r = ?r and now = ?late
        and rah = "example_rah (Some alice, None) None None",
        OF example_cookie f d, THEN conjunct2, THEN conjunct1]
    by (simp add: l t v s clock_from_def)
  have c: "RequireAuth_Handle (example_rah (Some alice, None) (Some ''revoked'') None)
      (clock_from (1001 + 5 * Minute)) (browser_request None None) =
     [CheckRevoked ''cookie-1'', Errorw ''RequireAuth'' (FailedToVerifyNotRevoked ''revoked''),
      FlashError ''Unauthorized'', Redirect ''/signout'' 302]"
    using RequireAuth_revocation_ttl [where r = ?r and now = ?late
        and rah = "example_rah (Some alice, None) (Some ''revoked'') None",
        OF example_cookie f d, THEN conjunct2, THEN conjunct1]
    by (simp add: l t v s j clock_from_def unauthorized_response_def)
  have e: "RequireAuth_Handle (example_rah (Some alice, None) None (Some ''read-only store''))
      (clock_from (1001 + 5 * Minute)) (browser_request None None) =
     [CheckRevoked ''cookie-1'', SaveUser (alice\<lparr>LastRevokeCheck := 1002 + 5 * Minute\<rparr>),
      Errorw ''RequireAuth'' (FailedToUpdateRevokeCheckTime ''read-only store''),
      FlashError ''Unauthorized'', Redirect ''/signout'' 302]"
    using RequireAuth_revocation_ttl [where r = ?r and now = ?late
        and rah = "example_rah (Some alice, None) None (Some ''read-only store'')",
        OF example_cookie f d, THEN conjunct2, THEN conjunct1]
    by (simp add: l t v s j clock_from_def unauthorized_response_def)
  from a b c e show ?thesis by simp
qed

section \<open>Properties of the issuance handler\<close>

subsection \<open>The retry loop\<close>

lemma Code_newVerificationCode: "Code (newVerificationCode rq c) = c"
  by (simp add: newVerificationCode_def)

lemma insert_conflict:
  "codes w c \<noteq> None \<Longrightarrow>
   insertCodeIfAbsent (newVerificationCode rq c) (emit ev w) = (False, emit ev w)"
  by (auto simp: insertCodeIfAbsent_def emit_def Code_newVerificationCode)

lemma insert_ok:
  "codes w c = None \<Longrightarrow>
   insertCodeIfAbsent (newVerificationCode rq c) (emit ev w) =
     (True, w\<lparr>codes := (codes w)(c \<mapsto> newVerificationCode rq c), trace := trace w @ [ev]\<rparr>)"
  by (simp add: insertCodeIfAbsent_def emit_def Code_newVerificationCode)

lemma Issue_loop_conflict:
  "codes w (RandomCode e (Length rq) k) \<noteq> None \<Longrightarrow>
   Issue_loop (Suc n) e rq k w =
     Issue_loop n e rq (Suc k) (emit (GenerateCode (RandomCode e (Length rq) k)) w)"
  by (simp add: insert_conflict Let_def)

lemma Issue_loop_ok:
  "codes w (RandomCode e (Length rq) k) = None \<Longrightarrow>
   Issue_loop n e rq k w =
     (Inr (RandomCode e (Length rq) k),
      w\<lparr>codes := (codes w)(RandomCode e (Length rq) k \<mapsto>
                     newVerificationCode rq (RandomCode e (Length rq) k)),
        trace := trace w @ [GenerateCode (RandomCode e (Length rq) k)]\<rparr>)"
  by (cases n) (simp_all add: insert_ok Let_def)

lemma Issue_loop_last:
  "codes w (RandomCode e (Length rq) k) \<noteq> None \<Longrightarrow>
   Issue_loop 0 e rq k w =
     (Inl ''collision retry budget exhausted'',
      emit (GenerateCode (RandomCode e (Length rq) k)) w)"
  by (simp add: insert_conflict Let_def)




lemma Issue_loop_written:
  "written (snd (Issue_loop n e rq k w)) = written w"
proof (induction n arbitrary: k w)
  case 0
  then show ?case
    by (cases "codes w (RandomCode e (Length rq) k)")
       (simp_all add: Issue_loop_ok Issue_loop_last emit_def written_def del: Issue_loop.simps)
next
  case (Suc n)
  let ?c = "RandomCode e (Length rq) k"
  let ?w = "emit (GenerateCode ?c) w"
  have g: "written ?w = written w"
    by (simp add: emit_def written_def)
  show ?case
  proof (cases "codes w ?c")
    case None
    then show ?thesis
      by (simp add: Issue_loop_ok written_def del: Issue_loop.simps)
  next
    case (Some a)
    then have "Issue_loop (Suc n) e rq k w = Issue_loop n e rq (Suc k) ?w"
      by (simp add: Issue_loop_conflict del: Issue_loop.simps)
    with Suc.IH [of "Suc k" ?w] g show ?thesis by (simp del: Issue_loop.simps)
  qed
qed

lemma Issue_loop_persisted:
  "Issue_loop n e rq k w = (Inr code, w1) \<Longrightarrow> codes w1 code \<noteq> None"
proof (induction n arbitrary: k w)
  case 0
  then show ?case
    by (cases "codes w (RandomCode e (Length rq) k)")
       (auto simp: Issue_loop_ok Issue_loop_last simp del: Issue_loop.simps)
next
  case (Suc n)
  let ?c = "RandomCode e (Length rq) k"
  let ?w = "emit (GenerateCode ?c) w"
  show ?case
  proof (cases "codes w ?c")
    case None
    with Suc.prems show ?thesis
      by (auto simp: Issue_loop_ok simp del: Issue_loop.simps)
  next
    case (Some a)
    then have "Issue_loop (Suc n) e rq k w = Issue_loop n e rq (Suc k) ?w"
      by (simp add: Issue_loop_conflict del: Issue_loop.simps)
    with Suc.IH [of "Suc k" ?w] Suc.prems show ?thesis by (simp del: Issue_loop.simps)
  qed
qed

lemma written_trace:
  "trace a = trace b @ evs \<Longrightarrow>
   written a = written b @
     concat (map (\<lambda>ev. case ev of WriteJSON st body \<Rightarrow> [(st, body)] | _ \<Rightarrow> []) evs)"
  by (simp add: written_def)

lemmas example_defs = New_def example_config_def example_env_def empty_world_def
  confirmed_request_def user_context_def alice_def realm1_def clock_from_def calendar_def
  example_ParseDate_def example_FormatDate_def TestTypeConfirmed_def TestTypeLikely_def
  TestTypeNegative_def failing_provider_def world_with_def

lemmas ServeHTTP_defs = ServeHTTP_def getAuthorizationFromContext_def ServeHTTP_realm_def
  ServeHTTP_sms_def ServeHTTP_testType_def ServeHTTP_symptomDate_def ServeHTTP_issue_def
  ServeHTTP_respond_def Issue_def insertCodeIfAbsent_def deleteCode_def newVerificationCode_def
  emit_def AuthorizedAppFromContext_def UserFromContext_def RealmFromContext_def
  ToLower_def toLower_char_def Truncate_def After_def Format_Local_def Unix_def Minutes_def
  Hour_def Minute_def Second_def StatusOK_def StatusUnprocessableEntity_def
  StatusInternalServerError_def StatusUnauthorized_def symptomDate_message_def
  written_def response_status_def generated_def Let_def numeral_3_eq_3

subsection \<open>Generation, dispatch and rollback\<close>



text \<open>
  C2. When a recipient was supplied, a provider is configured, the code was persisted
  and the send fails, the handler sends the delete of that code to the store, logs the
  failure of the send and answers 500 with the error of the send. When the delete
  succeeds the record is gone from the store; when the delete fails, that is logged, the
  store is as it was, and the response is the same.
\<close>

theorem dispatch_failure_rolls_back:
  assumes "Phone request \<noteq> []"
    and "Issue e
           \<lparr>Length = VerficationCodeDigits (config ic),
            ExpiresAt = Now e 1 + VerificationCodeDuration (config ic),
            Request_TestType = TestType request, Request_SymptomDate = symptomDate,
            MaxSymptomAge = AllowedSymptomAge (config ic), IssuingUser = user,
            IssuingApp = authApp, RealmID = ID realm\<rparr>
           (ColissionRetryCount (config ic)) w = (Inr code, w1)"
    and "provider (Phone request)
           (FormatSMS e code (Minutes (VerificationCodeDuration (config ic)))) = Some err"
  shows "codes w1 code \<noteq> None
    \<and> trace (ServeHTTP_issue ic e request authApp user realm (Some provider) symptomDate w) =
        trace w1 @
        [SendSMS (Phone request)
           (FormatSMS e code (Minutes (VerificationCodeDuration (config ic)))),
         DeleteVerificationCode code] @
        (case DeleteError e code of
           None \<Rightarrow> []
         | Some _ \<Rightarrow> [Errorf ''failed to delete verification code: %v'']) @
        [Errorf (''otp.SendSMS: '' @ err),
         WriteJSON 500 (Error (''failed to send sms: '' @ err))]
    \<and> codes (ServeHTTP_issue ic e request authApp user realm (Some provider) symptomDate w) =
        (case DeleteError e code of
           None \<Rightarrow> (codes w1)(code := None)
         | Some _ \<Rightarrow> codes w1)
    \<and> (DeleteError e code = None \<longrightarrow>
         codes (ServeHTTP_issue ic e request authApp user realm (Some provider) symptomDate w)
           code = None)
    \<and> (written w = [] \<longrightarrow>
         response_status
           (ServeHTTP_issue ic e request authApp user realm (Some provider) symptomDate w) =
         Some 500)"
proof -
  let ?h = "ServeHTTP_issue ic e request authApp user realm (Some provider) symptomDate w"
  let ?msg = "FormatSMS e code (Minutes (VerificationCodeDuration (config ic)))"
  let ?rq = "\<lparr>Length = VerficationCodeDigits (config ic),
      ExpiresAt = Now e 1 + VerificationCodeDuration (config ic),
      Request_TestType = TestType request, Request_SymptomDate = symptomDate,
      MaxSymptomAge = AllowedSymptomAge (config ic), IssuingUser = user,
      IssuingApp = authApp, RealmID = ID realm\<rparr>"
  have persisted: "codes w1 code \<noteq> None"
    using assms(2) Issue_loop_persisted by (simp add: Issue_def)
  have h: "?h = ServeHTTP_respond e request (Some provider) (VerificationCodeDuration (config ic))
      (Now e 1 + VerificationCodeDuration (config ic)) code w1"
    using assms(2) by (simp add: ServeHTTP_issue_def Let_def)
  have tr: "trace ?h = trace w1 @ [SendSMS (Phone request) ?msg, DeleteVerificationCode code] @
        (case DeleteError e code of
           None \<Rightarrow> []
         | Some _ \<Rightarrow> [Errorf ''failed to delete verification code: %v'']) @
        [Errorf (''otp.SendSMS: '' @ err),
         WriteJSON 500 (Error (''failed to send sms: '' @ err))]"
    unfolding h using assms(1,3)
    by (simp add: ServeHTTP_respond_def Let_def deleteCode_def emit_def
          StatusInternalServerError_def split: option.splits)
  have cs: "codes ?h = (case DeleteError e code of
           None \<Rightarrow> (codes w1)(code := None)
         | Some _ \<Rightarrow> codes w1)"
    unfolding h using assms(1,3)
    by (simp add: ServeHTTP_respond_def Let_def deleteCode_def emit_def split: option.splits)
  have "snd (Issue_loop (ColissionRetryCount (config ic)) e ?rq 0 w) = w1"
    using assms(2) by (simp add: Issue_def)
  then have w1: "written w1 = written w"
    using Issue_loop_written [of "ColissionRetryCount (config ic)" e ?rq 0 w] by simp
  have "written ?h = written w1 @ [(500, Error (''failed to send sms: '' @ err))]"
    using written_trace [OF tr] by (simp split: option.splits)
  with w1 have st: "written w = [] \<Longrightarrow> response_status ?h = Some 500"
    by (simp add: response_status_def)
  from persisted tr cs st show ?thesis by simp
qed

theorem dispatch_failure_rolls_back_witness:
  "trace (ServeHTTP_issue (New example_config)
      (example_env (confirmed_request [] ''+15555550100'') (user_context (Some alice) (Some realm1)))
      (confirmed_request [] ''+15555550100'') None (Some alice) realm1
      (Some failing_provider) None empty_world) =
     [GenerateCode ''11111111'',
      SendSMS ''+15555550100'' ''Your exposure notifications verification code is 11111111'',
      DeleteVerificationCode ''11111111'',
      Errorf ''otp.SendSMS: carrier rejected the message'',
      WriteJSON 500 (Error ''failed to send sms: carrier rejected the message'')]
   \<and> codes (ServeHTTP_issue (New example_config)
      (example_env (confirmed_request [] ''+15555550100'') (user_context (Some alice) (Some realm1)))
      (confirmed_request [] ''+15555550100'') None (Some alice) realm1
      (Some failing_provider) None empty_world) ''11111111'' = None
   \<and> response_status (ServeHTTP_issue (New example_config)
      (example_env (confirmed_request [] ''+15555550100'') (user_context (Some alice) (Some realm1)))
      (confirmed_request [] ''+15555550100'') None (Some alice) realm1
      (Some failing_provider) None empty_world) = Some 500"
proof -
  let ?rq = "confirmed_request [] ''+15555550100''"
  let ?e = "example_env ?rq (user_context (Some alice) (Some realm1))"
  let ?ic = "New example_config"
  let ?otp = "\<lparr>Length = VerficationCodeDigits (config ?ic),
            ExpiresAt = Now ?e 1 + VerificationCodeDuration (config ?ic),
            Request_TestType = TestType ?rq, Request_SymptomDate = None,
            MaxSymptomAge = AllowedSymptomAge (config ?ic), IssuingUser = Some alice,
            IssuingApp = None, RealmID = ID realm1\<rparr>"
  let ?w1 = "\<lparr>codes = [''11111111'' \<mapsto> newVerificationCode ?otp ''11111111''],
             trace = [GenerateCode ''11111111'']\<rparr>"
  have p: "Phone ?rq \<noteq> []" by (simp add: confirmed_request_def)
  have g: "RandomCode ?e n 0 = ''11111111''" for n
    by (simp add: example_env_def)
  have i: "Issue ?e ?otp (ColissionRetryCount (config ?ic)) empty_world = (Inr ''11111111'', ?w1)"
    using Issue_loop_ok [of empty_world ?e ?otp 0 "ColissionRetryCount (config ?ic)"]
    by (simp add: Issue_def g empty_world_def del: Issue_loop.simps)
  have s: "failing_provider (Phone ?rq)
      (FormatSMS ?e ''11111111'' (Minutes (VerificationCodeDuration (config ?ic)))) =
      Some ''carrier rejected the message''"
    by (simp add: failing_provider_def)
  have d: "DeleteError ?e c = None" for c
    by (simp add: example_env_def)
  have m: "FormatSMS ?e ''11111111'' n =
      ''Your exposure notifications verification code is 11111111''" for n
    by (simp add: example_env_def)
  have ph: "Phone ?rq = ''+15555550100''" by (simp add: confirmed_request_def)
  have w0: "written empty_world = []" by (simp add: written_def empty_world_def)
  from dispatch_failure_rolls_back [where request = ?rq and e = ?e and ic = ?ic
      and symptomDate = None and user = "Some alice" and authApp = None and realm = realm1
      and w = empty_world and code = "''11111111''" and ?w1.0 = ?w1
      and provider = failing_provider and err = "''carrier rejected the message''",
      OF p i s] w0
  show ?thesis
    by (simp add: d m ph)
qed

subsection \<open>The symptom date\<close>

text \<open>
  C7. A symptom date equal to maxDate, the server's today in local time, is to be accepted.
  The handler compares the date, parsed as midnight UTC, with the instant
  \<^verbatim>\<open>time.Now()\<close>, and renders the bounds of its message in the local zone. At
  19:00 UTC on 2020-08-01 on a server whose zone is ten hours ahead of UTC, the local day
  and the maxDate of the message are 2020-08-02, and the request with the symptom date
  2020-08-02 is rejected with 422 and a message that asks for a date on or before
  2020-08-02.
\<close>

theorem local_today_rejected:
  "SymptomDate (confirmed_request ''2020-08-02'' []) =
     Format_Local
       ((example_env (confirmed_request ''2020-08-02'' [])
           (user_context (Some alice) (Some realm1)))\<lparr>LocalOffset := 10 * Hour\<rparr>)
       (Now ((example_env (confirmed_request ''2020-08-02'' [])
           (user_context (Some alice) (Some realm1)))\<lparr>LocalOffset := 10 * Hour\<rparr>) 0)
   \<and> trace (ServeHTTP (New example_config)
       ((example_env (confirmed_request ''2020-08-02'' [])
           (user_context (Some alice) (Some realm1)))\<lparr>LocalOffset := 10 * Hour\<rparr>)
       empty_world) =
     [Errorf ''Invalid symptom onset date: 2020-08-02 must be on or after 2020-07-18 and on or before 2020-08-02.'',
      WriteJSON 422 (Error ''Invalid symptom onset date: 2020-08-02 must be on or after 2020-07-18 and on or before 2020-08-02.'')]"
  by (simp add: example_defs ServeHTTP_defs)

subsection \<open>Responses of the handler at three requests\<close>

text \<open>
  C1. A request with a phone number in a realm without SMS provider: the handler logs
  and writes the 422, and then goes on: it generates and persists a code and writes a
  second response with it. The client sees the status 422; the store holds the code.
\<close>

theorem no_channel_does_not_stop:
  "trace (ServeHTTP (New example_config)
       (example_env (confirmed_request [] ''+15555550100'')
          (user_context (Some alice) (Some realm1)))
       empty_world) =
     [Errorf ''otp.GetSMSProvider: phone provided, but no SMS provider is configured'',
      WriteJSON 422 (Error ''phone provided, but no SMS provider is configured''),
      GenerateCode ''11111111'',
      WriteJSON 200
        (IssueCodeResponse ''11111111'' ''Sat, 01 Aug 2020 19:15:00 UTC'' 1596309300)]
   \<and> codes (ServeHTTP (New example_config)
       (example_env (confirmed_request [] ''+15555550100'')
          (user_context (Some alice) (Some realm1)))
       empty_world) ''11111111'' \<noteq> None
   \<and> response_status (ServeHTTP (New example_config)
       (example_env (confirmed_request [] ''+15555550100'')
          (user_context (Some alice) (Some realm1)))
       empty_world) = Some 422"
  by (simp add: example_defs ServeHTTP_defs)

text \<open>
  C5. A request whose context holds neither an authorized app nor a user: the handler
  answers 422 with "invalid request: unable to identify authorized requestor".
\<close>

theorem unidentified_requestor_gets_422:
  "trace (ServeHTTP (New example_config)
       (example_env (confirmed_request [] []) (user_context None (Some realm1)))
       empty_world) =
     [Errorf ''failed to get authorization: unable to identify authorized requestor'',
      WriteJSON 422 (Error ''invalid request: unable to identify authorized requestor'')]
   \<and> response_status (ServeHTTP (New example_config)
       (example_env (confirmed_request [] []) (user_context None (Some realm1)))
       empty_world) = Some 422"
  by (simp add: example_defs ServeHTTP_defs)

text \<open>
  C9. A request whose body does not bind: the handler answers with the error object and
  the status 200.
\<close>

theorem bind_failure_gets_200:
  "trace (ServeHTTP (New example_config)
       ((example_env (confirmed_request [] []) (user_context (Some alice) (Some realm1)))
          \<lparr>BindJSON := (Some ''unexpected EOF'', confirmed_request [] [])\<rparr>)
       empty_world) =
     [Errorf ''failed to bind request: unexpected EOF'',
      WriteJSON 200 (Error ''invalid request: unexpected EOF'')]
   \<and> response_status (ServeHTTP (New example_config)
       ((example_env (confirmed_request [] []) (user_context (Some alice) (Some realm1)))
          \<lparr>BindJSON := (Some ''unexpected EOF'', confirmed_request [] [])\<rparr>)
       empty_world) = Some 200"
  by (simp add: example_defs ServeHTTP_defs)


end
